theory Spec2Isabelle
  imports Main
begin

section \<open>Python values used by the sources\<close>

text \<open>
  Exceptions of the Python runtime that the modelled code can raise. A function that can
  raise returns \<open>py_error + 'a\<close>, with \<open>Inl\<close> for the exception.
\<close>

datatype py_error = TypeError | ZeroDivisionError | AttributeError | KeyError | OSError

text \<open>
  \<open>str(i)\<close> for a Python integer: decimal digits, most significant first, with a leading
  minus sign for a negative number.
\<close>

definition digit_char :: "nat \<Rightarrow> char" where
  "digit_char d = ''0123456789'' ! d"

function str_nat :: "nat \<Rightarrow> string" where
  "str_nat n = (if n < 10 then [digit_char n] else str_nat (n div 10) @ [digit_char (n mod 10)])"
  by pat_completeness auto
termination
  by (relation "measure (\<lambda>n. n)") auto

declare str_nat.simps [simp del]

definition str_int :: "int \<Rightarrow> string" where
  "str_int i = (if i < 0 then ''-'' @ str_nat (nat (- i)) else str_nat (nat i))"

subsection \<open>datetime and timedelta\<close>

text \<open>
  A \<open>datetime\<close> is a point on the proleptic Gregorian time line with microsecond
  resolution; it is represented by the number of microseconds since the first instant
  \<open>datetime.min\<close>. A \<open>timedelta\<close> is stored by Python in normalised form:
  any number of days, \<open>0 \<le> seconds < 86400\<close> and \<open>0 \<le> microseconds < 1000000\<close>.
  The attribute \<open>.seconds\<close> reads the middle component only.
\<close>

type_synonym datetime = int

record timedelta =
  days :: int
  seconds :: int
  microseconds :: int

definition timedelta_of_microseconds :: "int \<Rightarrow> timedelta" where
  "timedelta_of_microseconds us =
     \<lparr>days = us div 86400000000,
      seconds = (us div 1000000) mod 86400,
      microseconds = us mod 1000000\<rparr>"

definition datetime_sub :: "datetime \<Rightarrow> datetime \<Rightarrow> timedelta" where
  "datetime_sub a b = timedelta_of_microseconds (a - b)"

section \<open>Events\<close>

text \<open>
  The classes \<open>Event\<close>, \<open>EventType\<close>, \<open>EventPriority\<close> and \<open>EventService\<close> are
  imported from \<open>src.notifier\<close>. The members named here are the ones the sources and the
  tests use; \<open>OTHER_TYPE\<close> and \<open>OTHER_SERVICE\<close> stand for the remaining members of the
  enumerations (\<open>OTHER_SERVICE\<close> carries the member's \<open>.name\<close>).
\<close>

datatype EventType = USER | OTHER_TYPE nat

datatype EventPriority = LOW | NORMAL | HIGH

datatype EventService = HARVESTER | FULL_NODE | OTHER_SERVICE string

fun service_name :: "EventService \<Rightarrow> string" where
  "service_name HARVESTER = ''HARVESTER''"
| "service_name FULL_NODE = ''FULL_NODE''"
| "service_name (OTHER_SERVICE n) = n"

record Event =
  type :: EventType
  priority :: EventPriority
  service :: EventService
  message :: string

section \<open>The finished-signage-point handler\<close>

text \<open>
  \<open>FinishedSignagePointMessage\<close> is produced by the parser: the timestamp of the log line
  and the signage point number found in it.
\<close>

record FinishedSignagePointMessage =
  timestamp :: datetime
  signage_point :: int

subsection \<open>NonSkippedSignagePoints\<close>

text \<open>
  The instance attributes of the checker. \<open>None\<close> is Python's \<open>None\<close>.
\<close>

record NonSkippedSignagePoints =
  last_signage_point_timestamp :: "datetime option"
  last_signage_point :: "int option"
  roll_over_point :: int

definition NonSkippedSignagePoints_init :: NonSkippedSignagePoints where
  "NonSkippedSignagePoints_init =
     \<lparr>last_signage_point_timestamp = None, last_signage_point = None, roll_over_point = 64\<rparr>"

definition skipped_message :: "int \<Rightarrow> int \<Rightarrow> string" where
  "skipped_message last_sp cur =
     ''Experiencing networking issues? Skipped some signage points! '' @
     ''Last '' @ str_int last_sp @ ''/64, current '' @ str_int cur @ ''/64.''"

text \<open>
  \<open>check\<close> returns the optional event together with the updated checker. Subtracting
  \<open>None\<close> from a datetime raises \<open>TypeError\<close>, and \<open>%\<close> by zero raises
  \<open>ZeroDivisionError\<close>; both happen before any attribute is written. Python's \<open>%\<close> on
  integers is the floor modulus, which is \<open>mod\<close> on \<open>int\<close>. The calls to \<open>logging\<close>
  do not influence the result or the attributes and are left out.
\<close>

definition check ::
  "NonSkippedSignagePoints \<Rightarrow> FinishedSignagePointMessage \<Rightarrow>
     py_error + (Event option \<times> NonSkippedSignagePoints)" where
  "check self obj =
     (case last_signage_point self of
        None \<Rightarrow>
          Inr (None, self\<lparr>last_signage_point_timestamp := Some (timestamp obj),
                          last_signage_point := Some (signage_point obj)\<rparr>)
      | Some last_sp \<Rightarrow>
          (case last_signage_point_timestamp self of
             None \<Rightarrow> Inl TypeError
           | Some last_timestamp \<Rightarrow>
               if roll_over_point self = 0 then Inl ZeroDivisionError
               else
                 let time_diff_seconds = seconds (datetime_sub (timestamp obj) last_timestamp);
                     increment_diff = signage_point obj - (last_sp mod roll_over_point self);
                     event =
                       (if increment_diff \<le> 0 \<or> increment_diff > 1 then
                          (if time_diff_seconds < 15 then None
                           else Some \<lparr>type = USER, priority = NORMAL, service = FULL_NODE,
                                      message = skipped_message last_sp (signage_point obj)\<rparr>)
                        else None)
                 in Inr (event, self\<lparr>last_signage_point_timestamp := Some (timestamp obj),
                                      last_signage_point := Some (signage_point obj)\<rparr>)))"

subsection \<open>Reachable checker states and the elapsed time the comments speak of\<close>

text \<open>
  The states a checker can be in: the constructed one, and every state a returning call
  to \<open>check\<close> leaves behind.
\<close>

inductive reachable :: "NonSkippedSignagePoints \<Rightarrow> bool" where
  constructed: "reachable NonSkippedSignagePoints_init"
| checked: "reachable self \<Longrightarrow> check self obj = Inr (event, self') \<Longrightarrow> reachable self'"

definition state_invariant :: "NonSkippedSignagePoints \<Rightarrow> bool" where
  "state_invariant self \<longleftrightarrow>
     (last_signage_point_timestamp self = None) = (last_signage_point self = None)
     \<and> roll_over_point self = 64"

text \<open>
  The elapsed time as the specification words it: the whole number of seconds between the
  two timestamps, truncated. It is compared with the \<open>time_diff_seconds\<close> that
  \<open>check\<close> computes.
\<close>

definition elapsed_whole_seconds :: "datetime \<Rightarrow> datetime \<Rightarrow> int" where
  "elapsed_whole_seconds new_timestamp last_timestamp =
     (new_timestamp - last_timestamp) div 1000000"

subsection \<open>ConditionChecker and FinishedSignagePointHandler\<close>

text \<open>
  \<open>ConditionChecker\<close> is the abstract class with the single method \<open>check\<close>. An
  instance is its implementation of \<open>check\<close> together with its attributes (of type
  \<open>'s\<close>); calling the method returns the optional event and the instance with its
  attributes updated, or raises.
\<close>

record 's ConditionChecker =
  check_method :: "'s \<Rightarrow> FinishedSignagePointMessage \<Rightarrow> py_error + (Event option \<times> 's)"
  attributes :: "'s"

definition call_check ::
  "'s ConditionChecker \<Rightarrow> FinishedSignagePointMessage \<Rightarrow>
     py_error + (Event option \<times> 's ConditionChecker)" where
  "call_check checker msg =
     (case check_method checker (attributes checker) msg of
        Inl err \<Rightarrow> Inl err
      | Inr (event, attrs) \<Rightarrow> Inr (event, checker\<lparr>attributes := attrs\<rparr>))"

text \<open>
  The two nested loops of \<open>handle\<close>. \<open>events\<close> is the list the loops append to.
  \<open>if event:\<close> tests an optional \<open>Event\<close>; an \<open>Event\<close> object is truthy, so the
  test fails for \<open>None\<close> only. An exception raised by a checker is not caught.
\<close>

fun run_checkers ::
  "FinishedSignagePointMessage \<Rightarrow> 's ConditionChecker list \<Rightarrow> Event list \<Rightarrow>
     py_error + (Event list \<times> 's ConditionChecker list)" where
  "run_checkers msg [] events = Inr (events, [])"
| "run_checkers msg (checker # rest) events =
     (case call_check checker msg of
        Inl err \<Rightarrow> Inl err
      | Inr (event, checker') \<Rightarrow>
          (case run_checkers msg rest
                  (case event of None \<Rightarrow> events | Some e \<Rightarrow> events @ [e]) of
             Inl err \<Rightarrow> Inl err
           | Inr (events', rest') \<Rightarrow> Inr (events', checker' # rest')))"

fun run_messages ::
  "FinishedSignagePointMessage list \<Rightarrow> 's ConditionChecker list \<Rightarrow> Event list \<Rightarrow>
     py_error + (Event list \<times> 's ConditionChecker list)" where
  "run_messages [] checkers events = Inr (events, checkers)"
| "run_messages (msg # msgs) checkers events =
     (case run_checkers msg checkers events of
        Inl err \<Rightarrow> Inl err
      | Inr (events', checkers') \<Rightarrow> run_messages msgs checkers' events')"

text \<open>
  The handler holds its parser and its list of checkers. The parser class lives in
  \<open>chia_log/parsers/finished_signage_point_parser.py\<close>, which is outside the files
  verified here: its \<open>parse\<close> method is a parameter of the model. The \<open>logging.debug\<close> call
  is left out. \<open>handle\<close> returns the events and the handler with its checkers updated.
\<close>

record 's FinishedSignagePointHandler =
  parser_parse :: "string \<Rightarrow> FinishedSignagePointMessage list"
  cond_checkers :: "'s ConditionChecker list"

definition handle ::
  "'s FinishedSignagePointHandler \<Rightarrow> string \<Rightarrow>
     py_error + (Event list \<times> 's FinishedSignagePointHandler)" where
  "handle self logs =
     (case run_messages (parser_parse self logs) (cond_checkers self) [] of
        Inl err \<Rightarrow> Inl err
      | Inr (events, checkers) \<Rightarrow> Inr (events, self\<lparr>cond_checkers := checkers\<rparr>))"

definition FinishedSignagePointHandler_init ::
  "(string \<Rightarrow> FinishedSignagePointMessage list) \<Rightarrow>
     NonSkippedSignagePoints FinishedSignagePointHandler" where
  "FinishedSignagePointHandler_init parse =
     \<lparr>parser_parse = parse,
      cond_checkers = [\<lparr>check_method = check, attributes = NonSkippedSignagePoints_init\<rparr>]\<rparr>"

text \<open>
  What one checker returns, message after message, when it is fed a sequence of messages on
  its own: the list of its optional events and the checker it has become. This is the
  yardstick for \<open>handle\<close>, which interleaves several checkers.
\<close>

fun answers ::
  "'s ConditionChecker \<Rightarrow> FinishedSignagePointMessage list \<Rightarrow>
     py_error + (Event option list \<times> 's ConditionChecker)" where
  "answers checker [] = Inr ([], checker)"
| "answers checker (msg # msgs) =
     (case call_check checker msg of
        Inl err \<Rightarrow> Inl err
      | Inr (event, checker') \<Rightarrow>
          (case answers checker' msgs of
             Inl err \<Rightarrow> Inl err
           | Inr (events, checker'') \<Rightarrow> Inr (event # events, checker'')))"

text \<open>
  A second kind of checker, for examples with more than one registered checker: it returns
  the same high-priority event for every message and keeps no state.
\<close>

definition always_emits ::
  "NonSkippedSignagePoints \<Rightarrow> FinishedSignagePointMessage \<Rightarrow>
     py_error + (Event option \<times> NonSkippedSignagePoints)" where
  "always_emits self obj =
     Inr (Some \<lparr>type = USER, priority = HIGH, service = HARVESTER, message = ''always''\<rparr>, self)"

section \<open>The Telegram notifier\<close>

text \<open>
  Values found in the configuration dictionary, and \<open>str\<close> of them as used by
  f-strings.
\<close>

datatype py_value = PyNone | PyBool bool | PyInt int | PyStr string

fun py_str :: "py_value \<Rightarrow> string" where
  "py_str PyNone = ''None''"
| "py_str (PyBool b) = (if b then ''True'' else ''False'')"
| "py_str (PyInt i) = str_int i"
| "py_str (PyStr s) = s"

type_synonym config = "string \<rightharpoonup> py_value"

text \<open>
  Records handed to \<open>logging\<close>, in the order they are emitted.
\<close>

datatype log_level = DEBUG | INFO | WARNING | ERROR

type_synonym log_record = "log_level \<times> string"

text \<open>
  The base class \<open>Notifier\<close> is declared in \<open>src/notifier/__init__.py\<close>, which is outside
  the files verified here. Its constructor is a parameter of \<open>TelegramNotifier_init\<close>;
  of the attributes it sets, the code modelled here reads \<open>_title_prefix\<close> only. In
  \<open>TelegramNotifier\<close> an attribute that was never assigned is \<open>None\<close>; reading it raises
  \<open>AttributeError\<close>.
\<close>

record Notifier =
  title_prefix :: string

record TelegramNotifier = Notifier +
  token :: "py_value option"
  chat_id :: "py_value option"

text \<open>
  \<open>__init__\<close>: the two assignments are inside one \<open>try\<close> block, so a missing
  \<open>bot_token\<close> skips the assignment of \<open>chat_id\<close> as well. \<open>str\<close> of a \<open>KeyError\<close>
  is the key in single quotes.
\<close>

definition missing_key_message :: "string \<Rightarrow> string" where
  "missing_key_message key =
     ''Invalid config.yaml. Missing key: '' @ [CHR 0x27] @ key @ [CHR 0x27]"

definition TelegramNotifier_init ::
  "(string \<Rightarrow> config \<Rightarrow> py_error + Notifier) \<Rightarrow> string \<Rightarrow> config \<Rightarrow>
     py_error + (TelegramNotifier \<times> log_record list)" where
  "TelegramNotifier_init Notifier_init prefix config =
     (case Notifier_init prefix config of
        Inl err \<Rightarrow> Inl err
      | Inr base \<Rightarrow>
          let self = \<lparr>title_prefix = title_prefix base, token = None, chat_id = None\<rparr>;
              log = [(INFO, ''Initializing Telegram notifier.'')]
          in (case config ''bot_token'' of
                None \<Rightarrow> Inr (self, log @ [(ERROR, missing_key_message ''bot_token'')])
              | Some bot_token \<Rightarrow>
                  (case config ''chat_id'' of
                     None \<Rightarrow>
                       Inr (self\<lparr>token := Some bot_token\<rparr>,
                            log @ [(ERROR, missing_key_message ''chat_id'')])
                   | Some chat \<Rightarrow>
                       Inr (self\<lparr>token := Some bot_token, chat_id := Some chat\<rparr>, log))))"

text \<open>
  The HTTPS request of \<open>send_events_to_user\<close>. \<open>body\<close> is the dictionary passed to
  \<open>urllib.parse.urlencode\<close>, in the order it is written. The outcome of a request is
  the status code of the response, or a failure of the connection, which raises.
\<close>

record http_request =
  host :: string
  http_method :: string
  url :: string
  body :: "(string \<times> py_value) list"
  headers :: "(string \<times> string) list"

datatype http_outcome = Response int | ConnectionFailed

text \<open>
  The attention symbol is the code point U+1F6A8, given here by its UTF-8 bytes.
\<close>

definition attention_symbol :: string where
  "attention_symbol = [CHR 0xF0, CHR 0x9F, CHR 0x9A, CHR 0xA8]"

definition telegram_request ::
  "TelegramNotifier \<Rightarrow> py_value \<Rightarrow> py_value \<Rightarrow> Event \<Rightarrow> http_request" where
  "telegram_request self bot_token chat event =
     (let symbol = (if priority event = HIGH then attention_symbol else [])
      in \<lparr>host = ''api.telegram.org:443'',
          http_method = ''POST'',
          url = ''/bot'' @ py_str bot_token @ ''/sendMessage'',
          body =
            [(''chat_id'', chat),
             (''parse_mode'', PyStr ''HTML''),
             (''text'', PyStr (''<b>'' @ symbol @ '' '' @ title_prefix self @ '' '' @
                               service_name (service event) @ ''</b>'' @ [CHR 0x0A] @
                               message event)),
             (''disable_notification'', PyBool (priority event = LOW))],
          headers = [(''Content-type'', ''application/x-www-form-urlencoded'')]\<rparr>)"

text \<open>
  The loop over the events. \<open>errors\<close> is the flag that is returned, \<open>sent\<close> the requests
  made so far; the outcome of a request is looked up by its position in that sequence.
  The \<open>logging.warning\<close> call is left out.
\<close>

fun send_loop ::
  "TelegramNotifier \<Rightarrow> (nat \<Rightarrow> http_outcome) \<Rightarrow> Event list \<Rightarrow> bool \<Rightarrow> http_request list \<Rightarrow>
     py_error + (bool \<times> http_request list)" where
  "send_loop self network [] errors sent = Inr (errors, sent)"
| "send_loop self network (event # events) errors sent =
     (if type event = USER then
        (case token self of
           None \<Rightarrow> Inl AttributeError
         | Some bot_token \<Rightarrow>
             (case chat_id self of
                None \<Rightarrow> Inl AttributeError
              | Some chat \<Rightarrow>
                  (case network (length sent) of
                     ConnectionFailed \<Rightarrow> Inl OSError
                   | Response code \<Rightarrow>
                       send_loop self network events
                         (if code \<noteq> 200 then True else errors)
                         (sent @ [telegram_request self bot_token chat event]))))
      else send_loop self network events errors sent)"

definition send_events_to_user ::
  "TelegramNotifier \<Rightarrow> (nat \<Rightarrow> http_outcome) \<Rightarrow> Event list \<Rightarrow>
     py_error + (bool \<times> http_request list)" where
  "send_events_to_user self network events = send_loop self network events False []"

text \<open>
  Two networks: one that answers every request with the same status code, and one on which
  no connection can be made.
\<close>

definition always_responds :: "int \<Rightarrow> nat \<Rightarrow> http_outcome" where
  "always_responds code k = Response code"

definition connection_down :: "nat \<Rightarrow> http_outcome" where
  "connection_down k = ConnectionFailed"

section \<open>Properties of the checker\<close>

text \<open>
  C5. On a freshly constructed checker the first call to \<open>check\<close> returns no event,
  whatever the message's counter is, and leaves the checker holding exactly the message's
  timestamp and counter.
\<close>

theorem check_first_call:
  "check NonSkippedSignagePoints_init obj =
     Inr (None, \<lparr>last_signage_point_timestamp = Some (timestamp obj),
                 last_signage_point = Some (signage_point obj),
                 roll_over_point = 64\<rparr>)"
  by (simp add: check_def NonSkippedSignagePoints_init_def)

text \<open>
  C3. From a primed checker whose last counter is \<open>c\<close>, a message with counter
  \<open>(c mod 64) + 1\<close> yields no event, whatever the two timestamps are; at the rollover
  boundary (last counter 64, new counter 1) the increment is 1 and no event is returned.
\<close>

theorem check_normal_advance:
  "check \<lparr>last_signage_point_timestamp = Some T, last_signage_point = Some c,
          roll_over_point = 64\<rparr>
         \<lparr>timestamp = T', signage_point = c mod 64 + 1\<rparr> =
     Inr (None, \<lparr>last_signage_point_timestamp = Some T',
                 last_signage_point = Some (c mod 64 + 1), roll_over_point = 64\<rparr>)
   \<and> (1::int) - 64 mod 64 = 1
   \<and> check \<lparr>last_signage_point_timestamp = Some T, last_signage_point = Some 64,
            roll_over_point = 64\<rparr>
           \<lparr>timestamp = T', signage_point = 1\<rparr> =
     Inr (None, \<lparr>last_signage_point_timestamp = Some T',
                 last_signage_point = Some 1, roll_over_point = 64\<rparr>)"
  by (simp add: check_def Let_def)

text \<open>
  C1. From a primed checker with last counter \<open>L\<close> and last timestamp \<open>T\<close>, a message
  whose increment \<open>C - (L mod 64)\<close> is \<open>\<le> 0\<close> or \<open>> 1\<close> and whose computed
  \<open>time_diff_seconds\<close> is at least 15 makes \<open>check\<close> return an event of normal priority
  whose text names the last counter as \<open>L/64\<close> and the current one as \<open>C/64\<close>.
\<close>

theorem check_skip_emits_event:
  assumes "signage_point obj - (L mod 64) \<le> 0 \<or> signage_point obj - (L mod 64) > 1"
    and "seconds (datetime_sub (timestamp obj) T) \<ge> 15"
  shows "check \<lparr>last_signage_point_timestamp = Some T, last_signage_point = Some L,
                roll_over_point = 64\<rparr> obj =
           Inr (Some \<lparr>type = USER, priority = NORMAL, service = FULL_NODE,
                      message =
                        ''Experiencing networking issues? Skipped some signage points! '' @
                        ''Last '' @ str_int L @ ''/64, current '' @
                        str_int (signage_point obj) @ ''/64.''\<rparr>,
                \<lparr>last_signage_point_timestamp = Some (timestamp obj),
                 last_signage_point = Some (signage_point obj), roll_over_point = 64\<rparr>)"
  using assms by (simp add: check_def Let_def skipped_message_def)

theorem check_skip_emits_event_witness:
  "check \<lparr>last_signage_point_timestamp = Some 0, last_signage_point = Some 10,
          roll_over_point = 64\<rparr> \<lparr>timestamp = 20000000, signage_point = 13\<rparr> =
     Inr (Some \<lparr>type = USER, priority = NORMAL, service = FULL_NODE,
                message =
                  ''Experiencing networking issues? Skipped some signage points! '' @
                  ''Last 10/64, current 13/64.''\<rparr>,
          \<lparr>last_signage_point_timestamp = Some 20000000,
           last_signage_point = Some 13, roll_over_point = 64\<rparr>)
   \<and> check \<lparr>last_signage_point_timestamp = Some 0, last_signage_point = Some 20,
            roll_over_point = 64\<rparr> \<lparr>timestamp = 15000000, signage_point = 15\<rparr> =
     Inr (Some \<lparr>type = USER, priority = NORMAL, service = FULL_NODE,
                message =
                  ''Experiencing networking issues? Skipped some signage points! '' @
                  ''Last 20/64, current 15/64.''\<rparr>,
          \<lparr>last_signage_point_timestamp = Some 15000000,
           last_signage_point = Some 15, roll_over_point = 64\<rparr>)"
proof -
  have skip: "signage_point \<lparr>timestamp = 20000000, signage_point = 13\<rparr> - (10 mod 64) \<le> 0
      \<or> signage_point \<lparr>timestamp = 20000000, signage_point = 13\<rparr> - (10 mod 64) > 1"
    by simp
  have gap: "seconds (datetime_sub (timestamp \<lparr>timestamp = 20000000, signage_point = 13\<rparr>) 0)
      \<ge> 15"
    by (simp add: datetime_sub_def timedelta_of_microseconds_def)
  have decrease: "signage_point \<lparr>timestamp = 15000000, signage_point = 15\<rparr> - (20 mod 64) \<le> 0
      \<or> signage_point \<lparr>timestamp = 15000000, signage_point = 15\<rparr> - (20 mod 64) > 1"
    by simp
  have gap': "seconds (datetime_sub (timestamp \<lparr>timestamp = 15000000, signage_point = 15\<rparr>) 0)
      \<ge> 15"
    by (simp add: datetime_sub_def timedelta_of_microseconds_def)
  have digits: "str_int 10 = ''10''" "str_int 13 = ''13''" "str_int 20 = ''20''"
    "str_int 15 = ''15''"
    by (simp_all add: str_int_def str_nat.simps digit_char_def)
  show ?thesis
    using check_skip_emits_event [OF skip gap] check_skip_emits_event [OF decrease gap']
    by (simp add: digits)
qed

text \<open>
  C4. From a primed checker, a message with an anomalous increment (\<open>\<le> 0\<close> or \<open>> 1\<close>)
  whose computed \<open>time_diff_seconds\<close> is below 15 yields no event, and the checker
  nevertheless stores the new message's timestamp and counter.
\<close>

theorem check_skip_suppressed:
  assumes "signage_point obj - (L mod 64) \<le> 0 \<or> signage_point obj - (L mod 64) > 1"
    and "seconds (datetime_sub (timestamp obj) T) < 15"
  shows "check \<lparr>last_signage_point_timestamp = Some T, last_signage_point = Some L,
                roll_over_point = 64\<rparr> obj =
           Inr (None,
                \<lparr>last_signage_point_timestamp = Some (timestamp obj),
                 last_signage_point = Some (signage_point obj), roll_over_point = 64\<rparr>)"
  using assms by (simp add: check_def Let_def)

theorem check_skip_suppressed_witness:
  "check \<lparr>last_signage_point_timestamp = Some 0, last_signage_point = Some 10,
          roll_over_point = 64\<rparr> \<lparr>timestamp = 14999999, signage_point = 13\<rparr> =
     Inr (None, \<lparr>last_signage_point_timestamp = Some 14999999,
                 last_signage_point = Some 13, roll_over_point = 64\<rparr>)"
proof -
  have skip: "signage_point \<lparr>timestamp = 14999999, signage_point = 13\<rparr> - (10 mod 64) \<le> 0
      \<or> signage_point \<lparr>timestamp = 14999999, signage_point = 13\<rparr> - (10 mod 64) > 1"
    by simp
  have gap: "seconds (datetime_sub (timestamp \<lparr>timestamp = 14999999, signage_point = 13\<rparr>) 0)
      < 15"
    by (simp add: datetime_sub_def timedelta_of_microseconds_def)
  show ?thesis
    using check_skip_suppressed [OF skip gap] by simp
qed

text \<open>
  C9. Every event that \<open>check\<close> returns, from any checker state and for any message, has
  type \<open>USER\<close>, priority \<open>NORMAL\<close> and service \<open>FULL_NODE\<close>; \<open>check\<close> takes no
  configuration, the three fields are constants of the checker.
\<close>

theorem check_event_fields:
  assumes "check self obj = Inr (Some e, self')"
  shows "type e = USER \<and> priority e = NORMAL \<and> service e = FULL_NODE"
  using assms
  by (auto simp: check_def Let_def split: option.splits if_splits)

theorem check_event_fields_witness:
  "\<exists>e self'.
     check \<lparr>last_signage_point_timestamp = Some 0, last_signage_point = Some 10,
            roll_over_point = 64\<rparr> \<lparr>timestamp = 20000000, signage_point = 13\<rparr> =
       Inr (Some e, self')
     \<and> type e = USER \<and> priority e = NORMAL \<and> service e = FULL_NODE"
proof -
  have emitted:
    "check \<lparr>last_signage_point_timestamp = Some 0, last_signage_point = Some 10,
            roll_over_point = 64\<rparr> \<lparr>timestamp = 20000000, signage_point = 13\<rparr> =
       Inr (Some \<lparr>type = USER, priority = NORMAL, service = FULL_NODE,
                  message = skipped_message 10 13\<rparr>,
            \<lparr>last_signage_point_timestamp = Some 20000000,
             last_signage_point = Some 13, roll_over_point = 64\<rparr>)"
    by (simp add: check_def Let_def datetime_sub_def timedelta_of_microseconds_def)
  from check_event_fields [OF emitted] emitted show ?thesis
    by blast
qed

text \<open>
  A returning call stores the message's timestamp and counter and keeps the modulus, in
  every branch.
\<close>

lemma check_stores_message:
  assumes "check self obj = Inr (event, self')"
  shows "self' = self\<lparr>last_signage_point_timestamp := Some (timestamp obj),
                      last_signage_point := Some (signage_point obj)\<rparr>"
  using assms
  by (auto simp: check_def Let_def split: option.splits if_splits)

lemma reachable_invariant:
  assumes "reachable self"
  shows "state_invariant self"
  using assms
proof (induction rule: reachable.induct)
  case constructed
  show ?case
    by (simp add: state_invariant_def NonSkippedSignagePoints_init_def)
next
  case (checked self obj event self')
  from checked.hyps(2) have "self' = self\<lparr>last_signage_point_timestamp := Some (timestamp obj),
      last_signage_point := Some (signage_point obj)\<rparr>"
    by (rule check_stores_message)
  with checked.IH show ?case
    by (simp add: state_invariant_def)
qed

lemma check_returns_under_invariant:
  assumes "state_invariant self"
  shows "\<exists>event. check self obj =
           Inr (event, \<lparr>last_signage_point_timestamp = Some (timestamp obj),
                        last_signage_point = Some (signage_point obj),
                        roll_over_point = 64\<rparr>)"
proof (cases "last_signage_point self")
  case None
  with assms show ?thesis
    by (cases self) (simp add: check_def state_invariant_def)
next
  case (Some last_sp)
  with assms obtain last_timestamp
    where "last_signage_point_timestamp self = Some last_timestamp"
    by (auto simp: state_invariant_def)
  with Some assms show ?thesis
    by (cases self) (simp add: check_def state_invariant_def Let_def)
qed

text \<open>
  C6. In every reachable checker state the last timestamp and the last counter are both
  absent or both present and the modulus is 64; from such a state every call to \<open>check\<close>
  returns, and whatever branch it took and whether or not it returned an event, the
  state it leaves holds the new message's timestamp and counter and the modulus 64 (so the
  invariant holds again).
\<close>

theorem reachable_state_invariant:
  assumes "reachable self"
  shows "state_invariant self
     \<and> (\<exists>event self'. check self obj = Inr (event, self')
          \<and> self' = \<lparr>last_signage_point_timestamp = Some (timestamp obj),
                     last_signage_point = Some (signage_point obj),
                     roll_over_point = 64\<rparr>
          \<and> state_invariant self' \<and> reachable self')"
proof -
  have inv: "state_invariant self"
    using assms by (rule reachable_invariant)
  then obtain event where ret: "check self obj =
      Inr (event, \<lparr>last_signage_point_timestamp = Some (timestamp obj),
                   last_signage_point = Some (signage_point obj),
                   roll_over_point = 64\<rparr>)"
    using check_returns_under_invariant by blast
  have "reachable \<lparr>last_signage_point_timestamp = Some (timestamp obj),
      last_signage_point = Some (signage_point obj), roll_over_point = 64\<rparr>"
    using assms ret by (rule reachable.checked)
  with inv ret show ?thesis
    by (simp add: state_invariant_def)
qed

theorem reachable_state_invariant_witness:
  "reachable \<lparr>last_signage_point_timestamp = Some 0, last_signage_point = Some 10,
              roll_over_point = 64\<rparr>
   \<and> state_invariant \<lparr>last_signage_point_timestamp = Some 0, last_signage_point = Some 10,
                      roll_over_point = 64\<rparr>
   \<and> check \<lparr>last_signage_point_timestamp = Some 0, last_signage_point = Some 10,
            roll_over_point = 64\<rparr> \<lparr>timestamp = 20000000, signage_point = 13\<rparr> =
       Inr (Some \<lparr>type = USER, priority = NORMAL, service = FULL_NODE,
                  message = skipped_message 10 13\<rparr>,
            \<lparr>last_signage_point_timestamp = Some 20000000,
             last_signage_point = Some 13, roll_over_point = 64\<rparr>)
   \<and> reachable \<lparr>last_signage_point_timestamp = Some 20000000,
                last_signage_point = Some 13, roll_over_point = 64\<rparr>"
proof -
  have first: "check NonSkippedSignagePoints_init \<lparr>timestamp = 0, signage_point = 10\<rparr> =
      Inr (None, \<lparr>last_signage_point_timestamp = Some 0, last_signage_point = Some 10,
                  roll_over_point = 64\<rparr>)"
    by (simp add: check_def NonSkippedSignagePoints_init_def)
  have primed: "reachable \<lparr>last_signage_point_timestamp = Some 0,
      last_signage_point = Some 10, roll_over_point = 64\<rparr>"
    using reachable.constructed first by (rule reachable.checked)
  have second:
    "check \<lparr>last_signage_point_timestamp = Some 0, last_signage_point = Some 10,
            roll_over_point = 64\<rparr> \<lparr>timestamp = 20000000, signage_point = 13\<rparr> =
       Inr (Some \<lparr>type = USER, priority = NORMAL, service = FULL_NODE,
                  message = skipped_message 10 13\<rparr>,
            \<lparr>last_signage_point_timestamp = Some 20000000,
             last_signage_point = Some 13, roll_over_point = 64\<rparr>)"
    by (simp add: check_def Let_def datetime_sub_def timedelta_of_microseconds_def)
  from reachable_state_invariant [OF primed, of "\<lparr>timestamp = 20000000, signage_point = 13\<rparr>"]
    primed second
  show ?thesis
    by simp
qed

text \<open>
  As long as the two timestamps are less than one day apart (and in order), the
  \<open>time_diff_seconds\<close> of \<open>check\<close> is the elapsed whole number of seconds.
\<close>

lemma seconds_within_a_day:
  assumes "last_timestamp \<le> new_timestamp"
    and "new_timestamp - last_timestamp < 86400000000"
  shows "seconds (datetime_sub new_timestamp last_timestamp) =
           elapsed_whole_seconds new_timestamp last_timestamp"
proof -
  let ?d = "new_timestamp - last_timestamp"
  have "0 \<le> ?d div 1000000"
    using assms(1) by simp
  moreover have "?d div 1000000 < 86400"
    using assms(2) by simp
  ultimately have "(?d div 1000000) mod 86400 = ?d div 1000000"
    by simp
  then show ?thesis
    by (simp add: datetime_sub_def timedelta_of_microseconds_def elapsed_whole_seconds_def)
qed

text \<open>
  C2. The claim is that \<open>time_diff_seconds\<close> is the truncated whole number of seconds
  between the two timestamps also for gaps of a day or more. For a new message one day and
  five seconds after the last one, 86405 whole seconds have elapsed, but \<open>.seconds\<close> is
  5: the skip from counter 10 to counter 13 is taken for a short-lived network blip and no
  event is returned.
\<close>

theorem time_diff_seconds_drops_days:
  "elapsed_whole_seconds 86405000000 0 = 86405
   \<and> seconds (datetime_sub 86405000000 0) = 5
   \<and> check \<lparr>last_signage_point_timestamp = Some 0, last_signage_point = Some 10,
            roll_over_point = 64\<rparr> \<lparr>timestamp = 86405000000, signage_point = 13\<rparr> =
       Inr (None, \<lparr>last_signage_point_timestamp = Some 86405000000,
                   last_signage_point = Some 13, roll_over_point = 64\<rparr>)"
  by (simp add: elapsed_whole_seconds_def check_def Let_def datetime_sub_def
      timedelta_of_microseconds_def)

section \<open>Properties of the handler\<close>

text \<open>
  The inner loop, when no checker raises: the events of the checkers are appended in the
  order of the checkers.
\<close>

lemma run_checkers_collects:
  assumes "list_all2 (\<lambda>checker r. call_check checker msg = Inr r) checkers rs"
  shows "run_checkers msg checkers events =
           Inr (events @ List.map_filter fst rs, map snd rs)"
  using assms
proof (induction checkers arbitrary: rs events)
  case Nil
  then show ?case by simp
next
  case (Cons checker rest)
  then obtain r rs' where rs: "rs = r # rs'" and r: "call_check checker msg = Inr r"
    and rest: "list_all2 (\<lambda>checker r. call_check checker msg = Inr r) rest rs'"
    by (auto simp: list_all2_Cons1)
  show ?case
    using r rs Cons.IH [OF rest]
    by (cases r) (simp split: option.splits)
qed

lemma answers_length:
  "answers checker msgs = Inr r \<Longrightarrow> length (fst r) = length msgs"
  by (induction msgs arbitrary: checker r) (auto split: sum.splits prod.splits)

lemma answers_split:
  assumes "list_all2 (\<lambda>checker r. answers checker (msg # msgs) = Inr r) checkers rs"
  shows "\<exists>mid. list_all2 (\<lambda>checker p. call_check checker msg = Inr p) checkers mid
           \<and> list_all2 (\<lambda>checker r. answers checker msgs = Inr r) (map snd mid)
                (map (\<lambda>r. (tl (fst r), snd r)) rs)
           \<and> map fst mid = map (\<lambda>r. hd (fst r)) rs
           \<and> (\<forall>r \<in> set rs. fst r \<noteq> [])"
  using assms
proof (induction checkers arbitrary: rs)
  case Nil
  then show ?case by simp
next
  case (Cons checker rest)
  then obtain r rs' where rs: "rs = r # rs'"
    and r: "answers checker (msg # msgs) = Inr r"
    and rest: "list_all2 (\<lambda>checker r. answers checker (msg # msgs) = Inr r) rest rs'"
    by (auto simp: list_all2_Cons1)
  from Cons.IH [OF rest] obtain mid
    where mid: "list_all2 (\<lambda>checker p. call_check checker msg = Inr p) rest mid"
      "list_all2 (\<lambda>checker r. answers checker msgs = Inr r) (map snd mid)
         (map (\<lambda>r. (tl (fst r), snd r)) rs')"
      "map fst mid = map (\<lambda>r. hd (fst r)) rs'" "\<forall>r \<in> set rs'. fst r \<noteq> []"
    by blast
  from r obtain event checker' events checker''
    where "call_check checker msg = Inr (event, checker')"
      "answers checker' msgs = Inr (events, checker'')" "r = (event # events, checker'')"
    by (auto split: sum.splits prod.splits)
  with mid rs show ?case
    by (intro exI [of _ "(event, checker') # mid"]) simp
qed

lemma map_filter_map:
  "List.map_filter f xs = List.map_filter id (map f xs)"
  by (induction xs) (simp_all split: option.splits)

lemma run_messages_collects:
  assumes "list_all2 (\<lambda>checker r. answers checker msgs = Inr r) checkers rs"
  shows "run_messages msgs checkers events =
           Inr (events @
                concat (map (\<lambda>i. List.map_filter (\<lambda>r. fst r ! i) rs) [0..<length msgs]),
                map snd rs)"
  using assms
proof (induction msgs arbitrary: checkers rs events)
  case Nil
  then have "rs = map (\<lambda>checker. ([], checker)) checkers"
    by (induction checkers arbitrary: rs) (auto simp: list_all2_Cons1)
  then show ?case
    by (simp add: comp_def)
next
  case (Cons msg msgs)
  from answers_split [OF Cons.prems] obtain mid
    where mid: "list_all2 (\<lambda>checker p. call_check checker msg = Inr p) checkers mid"
      and tails: "list_all2 (\<lambda>checker r. answers checker msgs = Inr r) (map snd mid)
         (map (\<lambda>r. (tl (fst r), snd r)) rs)"
      and heads: "map fst mid = map (\<lambda>r. hd (fst r)) rs"
      and nonempty: "\<forall>r \<in> set rs. fst r \<noteq> []"
    by blast
  have first: "List.map_filter fst mid = List.map_filter (\<lambda>r. fst r ! 0) rs"
  proof -
    have "List.map_filter fst mid = List.map_filter id (map fst mid)"
      by (rule map_filter_map)
    also have "\<dots> = List.map_filter id (map (\<lambda>r. fst r ! 0) rs)"
      using nonempty by (simp add: heads hd_conv_nth cong: map_cong)
    also have "\<dots> = List.map_filter (\<lambda>r. fst r ! 0) rs"
      by (rule map_filter_map [symmetric])
    finally show ?thesis .
  qed
  have later: "List.map_filter (\<lambda>r. fst r ! i) (map (\<lambda>r. (tl (fst r), snd r)) rs) =
      List.map_filter (\<lambda>r. fst r ! Suc i) rs" for i
  proof -
    have "fst r ! Suc i = tl (fst r) ! i" if "r \<in> set rs" for r
      using nonempty that by (cases "fst r") auto
    then have same: "map (\<lambda>r. tl (fst r) ! i) rs = map (\<lambda>r. fst r ! Suc i) rs"
      by simp
    have "List.map_filter (\<lambda>r. fst r ! i) (map (\<lambda>r. (tl (fst r), snd r)) rs) =
        List.map_filter id (map (\<lambda>r. tl (fst r) ! i) rs)"
      by (simp add: map_filter_map [of "\<lambda>r. fst r ! i"] comp_def)
    also have "\<dots> = List.map_filter id (map (\<lambda>r. fst r ! Suc i) rs)"
      by (simp only: same)
    also have "\<dots> = List.map_filter (\<lambda>r. fst r ! Suc i) rs"
      by (rule map_filter_map [symmetric])
    finally show ?thesis .
  qed
  show ?case
    using run_checkers_collects [OF mid, of events] Cons.IH [OF tails]
    by (simp add: map_upt_Suc first later comp_def del: upt_Suc)
qed


lemma no_answer_no_event:
  assumes "list_all2 (\<lambda>checker r. answers checker msgs = Inr r) checkers rs"
    and "\<forall>r \<in> set rs. \<forall>a \<in> set (fst r). a = None"
  shows "concat (map (\<lambda>i. List.map_filter (\<lambda>r. fst r ! i) rs) [0..<length msgs]) = []"
proof -
  have "List.map_filter (\<lambda>r. fst r ! i) rs = []" if "i < length msgs" for i
  proof -
    have "fst r ! i = None" if "r \<in> set rs" for r
    proof -
      from assms(1) that obtain checker where "answers checker msgs = Inr r"
        by (auto simp: list_all2_conv_all_nth in_set_conv_nth)
      then have "length (fst r) = length msgs"
        by (rule answers_length)
      with \<open>i < length msgs\<close> have "fst r ! i \<in> set (fst r)"
        by simp
      with assms(2) that show ?thesis
        by blast
    qed
    then have "map (\<lambda>r. fst r ! i) rs = map (\<lambda>r. None) rs"
      by simp
    then have "List.map_filter id (map (\<lambda>r. fst r ! i) rs) = List.map_filter id (map (\<lambda>r. None) rs)"
      by (simp only:)
    also have "\<dots> = []"
      by (induction rs) simp_all
    finally show ?thesis
      by (simp only: map_filter_map [symmetric])
  qed
  then show ?thesis
    by simp
qed

text \<open>
  The checker of this repository never raises once its invariant holds, so the constructed
  handler meets the hypothesis of the theorem below.
\<close>

lemma NonSkippedSignagePoints_answers:
  assumes "state_invariant s"
  shows "\<exists>r. answers \<lparr>check_method = check, attributes = s\<rparr> msgs = Inr r"
  using assms
proof (induction msgs arbitrary: s)
  case Nil
  show ?case by simp
next
  case (Cons msg msgs)
  from check_returns_under_invariant [OF Cons.prems, of msg] obtain event
    where ret: "check s msg =
      Inr (event, \<lparr>last_signage_point_timestamp = Some (timestamp msg),
                   last_signage_point = Some (signage_point msg), roll_over_point = 64\<rparr>)"
    by blast
  have "state_invariant \<lparr>last_signage_point_timestamp = Some (timestamp msg),
      last_signage_point = Some (signage_point msg), roll_over_point = 64\<rparr>"
    by (simp add: state_invariant_def)
  from Cons.IH [OF this] ret show ?case
    by (auto simp: call_check_def)
qed

lemma handle_constructed_returns:
  "\<exists>events handler. handle (FinishedSignagePointHandler_init parse) logs = Inr (events, handler)"
proof -
  have "state_invariant NonSkippedSignagePoints_init"
    by (simp add: state_invariant_def NonSkippedSignagePoints_init_def)
  from NonSkippedSignagePoints_answers [OF this, of "parse logs"] obtain r
    where "answers \<lparr>check_method = check, attributes = NonSkippedSignagePoints_init\<rparr>
      (parse logs) = Inr r"
    by blast
  then have "list_all2 (\<lambda>checker r. answers checker (parse logs) = Inr r)
      [\<lparr>check_method = check, attributes = NonSkippedSignagePoints_init\<rparr>] [r]"
    by simp
  from run_messages_collects [OF this, of "[]"] show ?thesis
    by (simp add: handle_def FinishedSignagePointHandler_init_def)
qed

text \<open>
  C7. For every input text: if each registered checker, fed the parser's messages in order
  on its own, returns its answers \<open>fst r\<close> and ends as \<open>snd r\<close>, then \<open>handle\<close> returns
  exactly the events among those answers, message by message and within one message in
  the order the checkers are registered, and leaves every checker as \<open>snd r\<close>. When no
  answer is an event the result is the empty list.
\<close>

theorem handle_collects_events:
  assumes "list_all2 (\<lambda>checker r. answers checker (parser_parse self logs) = Inr r)
             (cond_checkers self) rs"
  shows "handle self logs =
           Inr (concat (map (\<lambda>i. List.map_filter (\<lambda>r. fst r ! i) rs)
                          [0..<length (parser_parse self logs)]),
                self\<lparr>cond_checkers := map snd rs\<rparr>)
     \<and> ((\<forall>r \<in> set rs. \<forall>a \<in> set (fst r). a = None) \<longrightarrow>
          handle self logs = Inr ([], self\<lparr>cond_checkers := map snd rs\<rparr>))"
proof -
  have run: "handle self logs =
      Inr (concat (map (\<lambda>i. List.map_filter (\<lambda>r. fst r ! i) rs)
                     [0..<length (parser_parse self logs)]),
           self\<lparr>cond_checkers := map snd rs\<rparr>)"
    using run_messages_collects [OF assms, of "[]"] by (simp add: handle_def)
  moreover have "handle self logs = Inr ([], self\<lparr>cond_checkers := map snd rs\<rparr>)"
    if "\<forall>r \<in> set rs. \<forall>a \<in> set (fst r). a = None"
    using run no_answer_no_event [OF assms that] by simp
  ultimately show ?thesis
    by blast
qed

theorem handle_collects_events_witness:
  "(handle
     \<lparr>parser_parse = (\<lambda>logs. [\<lparr>timestamp = 20000000, signage_point = 13\<rparr>,
                               \<lparr>timestamp = 40000000, signage_point = 14\<rparr>]),
      cond_checkers =
        [\<lparr>check_method = check,
          attributes = \<lparr>last_signage_point_timestamp = Some 0, last_signage_point = Some 10,
                        roll_over_point = 64\<rparr>\<rparr>,
         \<lparr>check_method = always_emits, attributes = NonSkippedSignagePoints_init\<rparr>]\<rparr>
     ''log text'' =
   Inr ([\<lparr>type = USER, priority = NORMAL, service = FULL_NODE,
          message = skipped_message 10 13\<rparr>,
         \<lparr>type = USER, priority = HIGH, service = HARVESTER, message = ''always''\<rparr>,
         \<lparr>type = USER, priority = HIGH, service = HARVESTER, message = ''always''\<rparr>],
        \<lparr>parser_parse = (\<lambda>logs. [\<lparr>timestamp = 20000000, signage_point = 13\<rparr>,
                                  \<lparr>timestamp = 40000000, signage_point = 14\<rparr>]),
         cond_checkers =
           [\<lparr>check_method = check,
             attributes = \<lparr>last_signage_point_timestamp = Some 40000000,
                           last_signage_point = Some 14, roll_over_point = 64\<rparr>\<rparr>,
            \<lparr>check_method = always_emits, attributes = NonSkippedSignagePoints_init\<rparr>]\<rparr>))
   \<and> handle
       \<lparr>parser_parse = (\<lambda>logs. [\<lparr>timestamp = 9000000, signage_point = 11\<rparr>]),
        cond_checkers =
          [\<lparr>check_method = check,
            attributes = \<lparr>last_signage_point_timestamp = Some 0, last_signage_point = Some 10,
                          roll_over_point = 64\<rparr>\<rparr>]\<rparr>
       ''log text'' =
     Inr ([],
          \<lparr>parser_parse = (\<lambda>logs. [\<lparr>timestamp = 9000000, signage_point = 11\<rparr>]),
           cond_checkers =
             [\<lparr>check_method = check,
               attributes = \<lparr>last_signage_point_timestamp = Some 9000000,
                             last_signage_point = Some 11, roll_over_point = 64\<rparr>\<rparr>]\<rparr>)"
  (is "?emitting \<and> ?silent")
proof -
  let ?msgs = "[\<lparr>timestamp = 20000000, signage_point = 13\<rparr>,
                \<lparr>timestamp = 40000000, signage_point = 14\<rparr>]"
  let ?first = "\<lparr>check_method = check,
      attributes = \<lparr>last_signage_point_timestamp = Some 0, last_signage_point = Some 10,
                    roll_over_point = 64\<rparr>\<rparr>"
  let ?second = "\<lparr>check_method = always_emits, attributes = NonSkippedSignagePoints_init\<rparr>"
  let ?self = "\<lparr>parser_parse = (\<lambda>logs. ?msgs), cond_checkers = [?first, ?second]\<rparr>"
  let ?rs = "[([Some \<lparr>type = USER, priority = NORMAL, service = FULL_NODE,
                       message = skipped_message 10 13\<rparr>, None],
               \<lparr>check_method = check,
                attributes = \<lparr>last_signage_point_timestamp = Some 40000000,
                              last_signage_point = Some 14, roll_over_point = 64\<rparr>\<rparr>),
              ([Some \<lparr>type = USER, priority = HIGH, service = HARVESTER,
                       message = ''always''\<rparr>,
                Some \<lparr>type = USER, priority = HIGH, service = HARVESTER,
                       message = ''always''\<rparr>], ?second)]"
  have alone: "list_all2 (\<lambda>checker r. answers checker (parser_parse ?self ''log text'') = Inr r)
      (cond_checkers ?self) ?rs"
    by (simp add: call_check_def check_def always_emits_def Let_def datetime_sub_def
        timedelta_of_microseconds_def)
  let ?quiet = "\<lparr>parser_parse = (\<lambda>logs. [\<lparr>timestamp = 9000000, signage_point = 11\<rparr>]),
      cond_checkers =
        [\<lparr>check_method = check,
          attributes = \<lparr>last_signage_point_timestamp = Some 0, last_signage_point = Some 10,
                        roll_over_point = 64\<rparr>\<rparr>]\<rparr>"
  let ?qs = "[([None :: Event option],
               \<lparr>check_method = check,
                attributes = \<lparr>last_signage_point_timestamp = Some 9000000,
                              last_signage_point = Some 11, roll_over_point = 64\<rparr>\<rparr>)]"
  have quiet: "list_all2 (\<lambda>checker r. answers checker (parser_parse ?quiet ''log text'') = Inr r)
      (cond_checkers ?quiet) ?qs"
    by (simp add: call_check_def check_def Let_def)
  have none: "\<forall>r \<in> set ?qs. \<forall>a \<in> set (fst r). a = None"
    by simp
  have emitting: ?emitting
    using handle_collects_events [OF alone]
    by (simp add: List.map_filter_def upt_rec)
  have silent: ?silent
    using handle_collects_events [OF quiet, THEN conjunct2, THEN mp, OF none]
    by simp
  from emitting silent show ?thesis
    by simp
qed

section \<open>Properties of the notifier\<close>

lemma exists_below_Suc_shift:
  "(\<exists>k < Suc n. P (m + k)) \<longleftrightarrow> P m \<or> (\<exists>k < n. P (Suc m + k))"
proof
  assume "\<exists>k < Suc n. P (m + k)"
  then obtain k where k: "k < Suc n" "P (m + k)" by blast
  show "P m \<or> (\<exists>k < n. P (Suc m + k))"
  proof (cases k)
    case 0
    with k show ?thesis by simp
  next
    case (Suc j)
    with k have "j < n" "P (Suc m + j)" by simp_all
    then show ?thesis by blast
  qed
next
  assume "P m \<or> (\<exists>k < n. P (Suc m + k))"
  then show "\<exists>k < Suc n. P (m + k)"
  proof
    assume "P m"
    then have "P (m + 0)" by simp
    then show ?thesis by blast
  next
    assume "\<exists>k < n. P (Suc m + k)"
    then obtain k where "k < n" "P (m + Suc k)" by auto
    then have "Suc k < Suc n" "P (m + Suc k)" by simp_all
    then show ?thesis by blast
  qed
qed

lemma send_loop_result:
  assumes "token self = Some bot_token" and "chat_id self = Some chat"
  shows "send_loop self (\<lambda>k. Response (codes k)) events errors sent =
           Inr (errors \<or> (\<exists>k < length (filter (\<lambda>e. type e = USER) events).
                            codes (length sent + k) \<noteq> 200),
                sent @ map (telegram_request self bot_token chat)
                         (filter (\<lambda>e. type e = USER) events))"
proof (induction events arbitrary: errors sent)
  case Nil
  show ?case by simp
next
  case (Cons event events)
  show ?case
  proof (cases "type event = USER")
    case True
    then show ?thesis
      using assms Cons.IH [of "if codes (length sent) \<noteq> 200 then True else errors"
          "sent @ [telegram_request self bot_token chat event]"]
      by (simp add: exists_below_Suc_shift [of _ "\<lambda>k. codes k \<noteq> 200"])
  next
    case False
    then show ?thesis
      using Cons.IH [of errors sent] by simp
  qed
qed

text \<open>
  C8. As amended: for a notifier whose \<open>token\<close> and \<open>chat_id\<close> are assigned, every list of
  events and every sequence of response codes (every request gets a response):
  \<open>send_events_to_user\<close> makes one request per event of type \<open>USER\<close> and none for the
  others, in order; the text of a request carries the attention symbol U+1F6A8 (the bytes
  F0 9F 9A A8) right after \<open><b>\<close> exactly when the priority is \<open>HIGH\<close>, and nothing in
  its place otherwise; \<open>disable_notification\<close> is true exactly when the priority is
  \<open>LOW\<close>; and the returned flag is true if and only if one of the requests got a response
  code other than 200.
\<close>

theorem send_events_to_user_result:
  assumes "token self = Some bot_token" and "chat_id self = Some chat"
  shows "send_events_to_user self (\<lambda>k. Response (codes k)) events =
           Inr (\<exists>k < length (filter (\<lambda>e. type e = USER) events). codes k \<noteq> 200,
                map (\<lambda>event.
                       \<lparr>host = ''api.telegram.org:443'',
                        http_method = ''POST'',
                        url = ''/bot'' @ py_str bot_token @ ''/sendMessage'',
                        body =
                          [(''chat_id'', chat),
                           (''parse_mode'', PyStr ''HTML''),
                           (''text'',
                            PyStr (''<b>'' @
                                   (if priority event = HIGH then [CHR 0xF0, CHR 0x9F, CHR 0x9A, CHR 0xA8]
                                    else []) @
                                   '' '' @ title_prefix self @ '' '' @
                                   service_name (service event) @ ''</b>'' @ [CHR 0x0A] @
                                   message event)),
                           (''disable_notification'', PyBool (priority event = LOW))],
                        headers = [(''Content-type'', ''application/x-www-form-urlencoded'')]\<rparr>)
                    (filter (\<lambda>e. type e = USER) events))"
proof -
  have "telegram_request self bot_token chat =
      (\<lambda>event.
         \<lparr>host = ''api.telegram.org:443'',
          http_method = ''POST'',
          url = ''/bot'' @ py_str bot_token @ ''/sendMessage'',
          body =
            [(''chat_id'', chat),
             (''parse_mode'', PyStr ''HTML''),
             (''text'',
              PyStr (''<b>'' @
                     (if priority event = HIGH then [CHR 0xF0, CHR 0x9F, CHR 0x9A, CHR 0xA8]
                                    else []) @
                     '' '' @ title_prefix self @ '' '' @
                     service_name (service event) @ ''</b>'' @ [CHR 0x0A] @
                     message event)),
             (''disable_notification'', PyBool (priority event = LOW))],
          headers = [(''Content-type'', ''application/x-www-form-urlencoded'')]\<rparr>)"
    by (rule ext) (simp add: telegram_request_def attention_symbol_def)
  then show ?thesis
    using send_loop_result [OF assms, of codes events False "[]"]
    by (simp add: send_events_to_user_def)
qed

theorem send_events_to_user_result_witness:
  "send_events_to_user
     \<lparr>title_prefix = ''Test'', token = Some (PyStr ''T0K''), chat_id = Some (PyInt 42)\<rparr>
     (\<lambda>k. Response (if k = 1 then 500 else 200))
     [\<lparr>type = USER, priority = HIGH, service = HARVESTER, message = ''high''\<rparr>,
      \<lparr>type = OTHER_TYPE 0, priority = NORMAL, service = HARVESTER, message = ''skipped''\<rparr>,
      \<lparr>type = USER, priority = LOW, service = FULL_NODE, message = ''low''\<rparr>] =
   Inr (True,
        [\<lparr>host = ''api.telegram.org:443'', http_method = ''POST'',
          url = ''/botT0K/sendMessage'',
          body = [(''chat_id'', PyInt 42), (''parse_mode'', PyStr ''HTML''),
                  (''text'', PyStr (''<b>'' @ [CHR 0xF0, CHR 0x9F, CHR 0x9A, CHR 0xA8] @
                                    '' Test HARVESTER</b>'' @
                                    [CHR 0x0A] @ ''high'')),
                  (''disable_notification'', PyBool False)],
          headers = [(''Content-type'', ''application/x-www-form-urlencoded'')]\<rparr>,
         \<lparr>host = ''api.telegram.org:443'', http_method = ''POST'',
          url = ''/botT0K/sendMessage'',
          body = [(''chat_id'', PyInt 42), (''parse_mode'', PyStr ''HTML''),
                  (''text'', PyStr (''<b> Test FULL_NODE</b>'' @ [CHR 0x0A] @ ''low'')),
                  (''disable_notification'', PyBool True)],
          headers = [(''Content-type'', ''application/x-www-form-urlencoded'')]\<rparr>])"
proof -
  have set_up: "token \<lparr>title_prefix = ''Test'', token = Some (PyStr ''T0K''),
        chat_id = Some (PyInt 42)\<rparr> = Some (PyStr ''T0K'')"
    "chat_id \<lparr>title_prefix = ''Test'', token = Some (PyStr ''T0K''),
        chat_id = Some (PyInt 42)\<rparr> = Some (PyInt 42)"
    by simp_all
  have failed: "\<exists>k<Suc (Suc 0). k = Suc 0"
    by blast
  show ?thesis
    using send_events_to_user_result [OF set_up, of "\<lambda>k. if k = 1 then 500 else 200"
        "[\<lparr>type = USER, priority = HIGH, service = HARVESTER, message = ''high''\<rparr>,
          \<lparr>type = OTHER_TYPE 0, priority = NORMAL, service = HARVESTER, message = ''skipped''\<rparr>,
          \<lparr>type = USER, priority = LOW, service = FULL_NODE, message = ''low''\<rparr>]"]
      failed
    by simp
qed

text \<open>
  Without the two restrictions no flag is returned. On the notifier that the constructor
  leaves behind when \<open>bot_token\<close> is missing, the first event of type \<open>USER\<close> raises
  \<open>AttributeError\<close> when \<open>self.token\<close> is read; with only \<open>chat_id\<close> missing it is
  \<open>self.chat_id\<close> that raises; and when the connection fails the exception of the
  transport leaves \<open>send_events_to_user\<close> uncaught.
\<close>

theorem send_events_to_user_raises:
  "send_events_to_user \<lparr>title_prefix = ''Test'', token = None, chat_id = None\<rparr>
     (always_responds 200)
     [\<lparr>type = USER, priority = NORMAL, service = HARVESTER, message = ''m''\<rparr>] =
     Inl AttributeError
   \<and> send_events_to_user
       \<lparr>title_prefix = ''Test'', token = Some (PyStr ''T0K''), chat_id = None\<rparr>
       (always_responds 200)
       [\<lparr>type = USER, priority = NORMAL, service = HARVESTER, message = ''m''\<rparr>] =
     Inl AttributeError
   \<and> send_events_to_user
       \<lparr>title_prefix = ''Test'', token = Some (PyStr ''T0K''), chat_id = Some (PyInt 42)\<rparr>
       connection_down
       [\<lparr>type = USER, priority = NORMAL, service = HARVESTER, message = ''m''\<rparr>] =
     Inl OSError"
  by (simp add: send_events_to_user_def always_responds_def connection_down_def)

text \<open>
  C10. When the base constructor returns, constructing a \<open>TelegramNotifier\<close> from a
  configuration without \<open>bot_token\<close>, or with \<open>bot_token\<close> but without \<open>chat_id\<close>,
  returns an instance: the \<open>KeyError\<close> is logged as an error record and the attribute of
  the missing key stays unassigned.
\<close>

theorem TelegramNotifier_init_missing_key:
  assumes "Notifier_init prefix config = Inr base"
  shows "(config ''bot_token'' = None \<longrightarrow>
            TelegramNotifier_init Notifier_init prefix config =
              Inr (\<lparr>title_prefix = title_prefix base, token = None, chat_id = None\<rparr>,
                   [(INFO, ''Initializing Telegram notifier.''),
                    (ERROR, ''Invalid config.yaml. Missing key: '' @ [CHR 0x27] @
                            ''bot_token'' @ [CHR 0x27])]))
       \<and> (config ''bot_token'' = Some bot_token \<and> config ''chat_id'' = None \<longrightarrow>
            TelegramNotifier_init Notifier_init prefix config =
              Inr (\<lparr>title_prefix = title_prefix base, token = Some bot_token, chat_id = None\<rparr>,
                   [(INFO, ''Initializing Telegram notifier.''),
                    (ERROR, ''Invalid config.yaml. Missing key: '' @ [CHR 0x27] @
                            ''chat_id'' @ [CHR 0x27])]))"
  using assms by (simp add: TelegramNotifier_init_def missing_key_message_def Let_def)

theorem TelegramNotifier_init_missing_key_witness:
  "TelegramNotifier_init (\<lambda>prefix config. Inr \<lparr>title_prefix = prefix\<rparr>) ''Test''
     [''enable'' \<mapsto> PyBool True, ''chat_id'' \<mapsto> PyInt 42] =
     Inr (\<lparr>title_prefix = ''Test'', token = None, chat_id = None\<rparr>,
          [(INFO, ''Initializing Telegram notifier.''),
           (ERROR, ''Invalid config.yaml. Missing key: '' @ [CHR 0x27] @
                   ''bot_token'' @ [CHR 0x27])])
   \<and> TelegramNotifier_init (\<lambda>prefix config. Inr \<lparr>title_prefix = prefix\<rparr>) ''Test''
       [''enable'' \<mapsto> PyBool True, ''bot_token'' \<mapsto> PyStr ''T0K''] =
     Inr (\<lparr>title_prefix = ''Test'', token = Some (PyStr ''T0K''), chat_id = None\<rparr>,
          [(INFO, ''Initializing Telegram notifier.''),
           (ERROR, ''Invalid config.yaml. Missing key: '' @ [CHR 0x27] @
                   ''chat_id'' @ [CHR 0x27])])"
proof -
  have "TelegramNotifier_init (\<lambda>prefix config. Inr \<lparr>title_prefix = prefix\<rparr>) ''Test''
      [''enable'' \<mapsto> PyBool True, ''chat_id'' \<mapsto> PyInt 42] =
      Inr (\<lparr>title_prefix = ''Test'', token = None, chat_id = None\<rparr>,
           [(INFO, ''Initializing Telegram notifier.''),
            (ERROR, ''Invalid config.yaml. Missing key: '' @ [CHR 0x27] @
                    ''bot_token'' @ [CHR 0x27])])"
    using TelegramNotifier_init_missing_key
      [where Notifier_init = "\<lambda>prefix config. Inr \<lparr>title_prefix = prefix\<rparr>"
        and prefix = "''Test''" and base = "\<lparr>title_prefix = ''Test''\<rparr>"
        and config = "[''enable'' \<mapsto> PyBool True, ''chat_id'' \<mapsto> PyInt 42]"]
    by simp
  moreover
  have "TelegramNotifier_init (\<lambda>prefix config. Inr \<lparr>title_prefix = prefix\<rparr>) ''Test''
      [''enable'' \<mapsto> PyBool True, ''bot_token'' \<mapsto> PyStr ''T0K''] =
      Inr (\<lparr>title_prefix = ''Test'', token = Some (PyStr ''T0K''), chat_id = None\<rparr>,
           [(INFO, ''Initializing Telegram notifier.''),
            (ERROR, ''Invalid config.yaml. Missing key: '' @ [CHR 0x27] @
                    ''chat_id'' @ [CHR 0x27])])"
    using TelegramNotifier_init_missing_key
      [where Notifier_init = "\<lambda>prefix config. Inr \<lparr>title_prefix = prefix\<rparr>"
        and prefix = "''Test''" and base = "\<lparr>title_prefix = ''Test''\<rparr>"
        and config = "[''enable'' \<mapsto> PyBool True, ''bot_token'' \<mapsto> PyStr ''T0K'']"
        and bot_token = "PyStr ''T0K''"]
    by simp
  ultimately show ?thesis
    by simp
qed

end
